theory Spec2Isabelle
  imports Complex_Main "HOL-Library.Multiset" "HOL-Library.Sublist"
begin

section \<open>The stock screener of \<^verbatim>\<open>src/screener.py\<close>\<close>

text \<open>
  The screener works on pandas data frames. A frame is modelled as the list of its rows,
  in index order, and a row as a record of the columns the code reads. Decimal values
  are real numbers: rounding of binary floating point is not part of the model. What
  the code's numeric types add to the reals is kept: a cell of a numeric column can be
  missing (NaN), in the snapshot, where \<^verbatim>\<open>pd.to_numeric(errors='coerce')\<close> writes
  it, and in the daily bars; and a division by zero gives an infinity or NaN.
\<close>

subsection \<open>Snapshot rows and the basic filter\<close>

text \<open>
  A snapshot row after \<^verbatim>\<open>get_market_snapshot\<close> has renamed the provider's columns
  and coerced the numeric ones. A numeric cell is \<open>None\<close> where the coercion failed
  (the cell is NaN). The fields are prefixed with \<open>q_\<close>, since \<open>code\<close>, \<open>name\<close>,
  \<open>price\<close> and \<open>pct_chg\<close> are also keys of the other tables.
\<close>

record QuoteRow =
  q_code :: string
  q_name :: string
  q_price :: "real option"
  q_pe :: "real option"
  q_total_mv :: "real option"
  q_circ_mv :: "real option"
  q_pct_chg :: "real option"

type_synonym snapshot = "QuoteRow list"

text \<open>Comparisons of a column with a number: a NaN cell compares false.\<close>

fun nan_le :: "real option \<Rightarrow> real \<Rightarrow> bool" where
  "nan_le None t = False"
| "nan_le (Some v) t = (v \<le> t)"

fun nan_gt :: "real option \<Rightarrow> real \<Rightarrow> bool" where
  "nan_gt None t = False"
| "nan_gt (Some v) t = (v > t)"

definition market_cap_limit :: real where
  "market_cap_limit = 200 * 100000000"

text \<open>
  \<^verbatim>\<open>filter_basics\<close>: an empty frame is returned as it is; otherwise the three boolean
  masks are applied one after the other, each to the frame the previous one left.
  The two \<^verbatim>\<open>logger.info\<close> calls do not touch the frame.
\<close>

definition filter_basics :: "snapshot \<Rightarrow> snapshot" where
  "filter_basics df =
     (if df = [] then df
      else
        let df1 = filter (\<lambda>r. nan_le (q_price r) 20) df;
            df2 = filter (\<lambda>r. nan_gt (q_pe r) 0) df1;
            df3 = filter (\<lambda>r. nan_le (q_total_mv r) market_cap_limit) df2
        in df3)"

text \<open>The predicate the three masks amount to, as the specification words it.\<close>

definition passes_basics :: "QuoteRow \<Rightarrow> bool" where
  "passes_basics r =
     (nan_le (q_price r) 20 \<and> nan_gt (q_pe r) 0 \<and> nan_le (q_total_mv r) 20000000000)"

subsection \<open>Daily bars, numpy arithmetic and the derived signals\<close>

text \<open>
  A history frame as \<^verbatim>\<open>get_daily_data(code, days=250)\<close> returns it: one row per
  trading day, with the columns \<^verbatim>\<open>check_technical_pattern\<close> reads. The date column
  is any linearly ordered type (a timestamp, an ISO date string, a day number). A cell
  of a numeric column is a finite number or missing (NaN, \<open>None\<close>); infinite cells and
  the rounding of float64 are outside the model. The call can raise, return no frame
  (\<^verbatim>\<open>None\<close>) or return a frame; the source label returned beside the frame is
  dropped by the caller and is not modelled.
\<close>

record 'd DailyBar =
  date :: 'd
  close :: "real option"
  high :: "real option"
  low :: "real option"
  pct_chg :: "real option"

datatype 'a outcome = Raises string | Returns 'a

type_synonym 'd fetcher = "string \<Rightarrow> nat \<Rightarrow> 'd DailyBar list option outcome"

text \<open>
  The cells of a row are numpy scalars: NaN propagates through subtraction and
  division, and a division by zero does not raise but gives an infinity or NaN.
  \<open>npfloat\<close> is the result type of a division, and the operations the code applies to
  it afterwards follow IEEE 754 on the special values.
\<close>

datatype npfloat = Fin real | PInf | NInf | NaN

fun np_sub :: "real option \<Rightarrow> real option \<Rightarrow> real option" where
  "np_sub (Some a) (Some b) = Some (a - b)"
| "np_sub _ _ = None"

fun np_div :: "real option \<Rightarrow> real option \<Rightarrow> npfloat" where
  "np_div (Some x) (Some y) =
     (if y \<noteq> 0 then Fin (x / y)
      else if x > 0 then PInf
      else if x < 0 then NInf
      else NaN)"
| "np_div _ _ = NaN"

fun np_gt :: "npfloat \<Rightarrow> real \<Rightarrow> bool" where
  "np_gt (Fin x) t = (x > t)"
| "np_gt PInf t = True"
| "np_gt NInf t = False"
| "np_gt NaN t = False"

fun np_times :: "npfloat \<Rightarrow> real \<Rightarrow> npfloat" where
  "np_times (Fin x) r = Fin (x * r)"
| "np_times PInf r = (if r > 0 then PInf else if r < 0 then NInf else NaN)"
| "np_times NInf r = (if r > 0 then NInf else if r < 0 then PInf else NaN)"
| "np_times NaN r = NaN"

text \<open>\<^verbatim>\<open>a != b\<close> on two cells: true as soon as one of them is NaN.\<close>

fun np_ne :: "real option \<Rightarrow> real option \<Rightarrow> bool" where
  "np_ne (Some a) (Some b) = (a \<noteq> b)"
| "np_ne _ _ = True"

text \<open>The dictionary a hit is returned as.\<close>

record ScreenHit =
  code :: string
  name :: string
  price :: "real option"
  limit_up_count :: nat
  interval_increase :: npfloat
  position_rank :: npfloat

text \<open>\<^verbatim>\<open>df.tail(n)\<close>: the last \<open>n\<close> rows, all of them when there are fewer.\<close>

definition tail_rows :: "nat \<Rightarrow> 'a list \<Rightarrow> 'a list" where
  "tail_rows n xs = drop (length xs - n) xs"

text \<open>
  \<^verbatim>\<open>df.sort_values('date', ascending=True).reset_index(drop=True)\<close>. With distinct
  dates the sorted frame is unique; where dates repeat, pandas leaves the order of
  equal dates to its quicksort, and the model keeps them in their input order.
\<close>

definition sort_values_date :: "('d::linorder) DailyBar list \<Rightarrow> 'd DailyBar list" where
  "sort_values_date df = sort_key date df"

text \<open>
  The signals, each a function of the sorted frame \<open>df\<close>, named as the local variables
  of \<^verbatim>\<open>check_technical_pattern\<close>. They are read only after the length check, on a
  frame of at least 60 rows, so \<open>last\<close> and \<open>hd\<close> are applied to non-empty lists.
\<close>

definition df_60 :: "'d DailyBar list \<Rightarrow> 'd DailyBar list" where
  "df_60 df = tail_rows 60 df"

definition current_price :: "'d DailyBar list \<Rightarrow> real option" where
  "current_price df = close (last df)"

definition price_60_days_ago :: "'d DailyBar list \<Rightarrow> real option" where
  "price_60_days_ago df = close (hd (df_60 df))"

definition limit_up_days :: "'d DailyBar list \<Rightarrow> 'd DailyBar list" where
  "limit_up_days df = filter (\<lambda>b. nan_gt (pct_chg b) 9.5) (df_60 df)"

definition interval_increase_of :: "'d DailyBar list \<Rightarrow> npfloat" where
  "interval_increase_of df =
     np_div (np_sub (current_price df) (price_60_days_ago df)) (price_60_days_ago df)"

text \<open>
  \<^verbatim>\<open>df['close'].rolling(n).mean().iloc[-1]\<close>: the mean of the last \<open>n\<close> closes. The
  window needs \<open>n\<close> observations (\<^verbatim>\<open>min_periods\<close> defaults to the window size), so
  the value is NaN when the frame has fewer than \<open>n\<close> rows or one of the \<open>n\<close> closes
  is missing. A comparison with NaN is false.
\<close>

definition rolling_mean_last :: "nat \<Rightarrow> 'd DailyBar list \<Rightarrow> real option" where
  "rolling_mean_last n df =
     (if length df < n then None
      else
        let w = map close (tail_rows n df)
        in if None \<in> set w then None else Some (sum_list (map the w) / real n))"

fun nan_gt2 :: "real option \<Rightarrow> real option \<Rightarrow> bool" where
  "nan_gt2 (Some a) (Some b) = (a > b)"
| "nan_gt2 _ _ = False"

text \<open>
  \<^verbatim>\<open>Series.max()\<close> and \<^verbatim>\<open>Series.min()\<close> skip missing cells; the result is NaN when
  every cell is missing.
\<close>

definition nanmax :: "real option list \<Rightarrow> real option" where
  "nanmax cs = (case List.map_filter (\<lambda>c. c) cs of [] \<Rightarrow> None | v # vs \<Rightarrow> Some (fold max vs v))"

definition nanmin :: "real option list \<Rightarrow> real option" where
  "nanmin cs = (case List.map_filter (\<lambda>c. c) cs of [] \<Rightarrow> None | v # vs \<Rightarrow> Some (fold min vs v))"

definition year_high :: "'d DailyBar list \<Rightarrow> real option" where
  "year_high df = nanmax (map high df)"

definition year_low :: "'d DailyBar list \<Rightarrow> real option" where
  "year_low df = nanmin (map low df)"

definition position_rank_of :: "'d DailyBar list \<Rightarrow> npfloat" where
  "position_rank_of df =
     (if np_ne (year_high df) (year_low df)
      then np_div (np_sub (current_price df) (year_low df))
                  (np_sub (year_high df) (year_low df))
      else Fin 0)"

subsection \<open>The pattern evaluator\<close>

text \<open>
  The body of the \<^verbatim>\<open>try\<close> block of \<^verbatim>\<open>check_technical_pattern\<close>: \<open>Inl\<close> is an
  exception leaving the block, \<open>Inr None\<close> one of its \<^verbatim>\<open>return None\<close>, and
  \<open>Inr (Some h)\<close> the returned dictionary. The frame carries the columns the body
  reads, so the only exception of the model is the one the fetch raises.
\<close>

definition pattern_body ::
  "('d::linorder) fetcher \<Rightarrow> string \<Rightarrow> string \<Rightarrow> string + ScreenHit option" where
  "pattern_body get_daily_data c n =
     (case get_daily_data c 250 of
        Raises e \<Rightarrow> Inl e
      | Returns None \<Rightarrow> Inr None
      | Returns (Some df0) \<Rightarrow>
          if df0 = [] \<or> length df0 < 60 then Inr None
          else
            let df = sort_values_date df0 in
            if length (limit_up_days df) = 0 then Inr None
            else if np_gt (interval_increase_of df) 0.5 then Inr None
            else
              let ma5 = rolling_mean_last 5 df;
                  ma10 = rolling_mean_last 10 df;
                  ma20 = rolling_mean_last 20 df
              in
              if \<not> (nan_gt2 ma5 ma10 \<and> nan_gt2 ma10 ma20) then Inr None
              else if np_gt (position_rank_of df) 0.5 then Inr None
              else Inr (Some \<lparr> code = c, name = n,
                     price = current_price df,
                     limit_up_count = length (limit_up_days df),
                     interval_increase = np_times (interval_increase_of df) 100,
                     position_rank = np_times (position_rank_of df) 100 \<rparr>))"

text \<open>\<^verbatim>\<open>except Exception\<close>: whatever the body raises becomes \<^verbatim>\<open>None\<close>.\<close>

definition check_technical_pattern ::
  "('d::linorder) fetcher \<Rightarrow> string \<Rightarrow> string \<Rightarrow> ScreenHit option" where
  "check_technical_pattern get_daily_data c n =
     (case pattern_body get_daily_data c n of
        Inl e \<Rightarrow> None
      | Inr r \<Rightarrow> r)"

subsection \<open>The snapshot fetch and the orchestrator\<close>

text \<open>
  The two providers return a quote table or raise. The headers of a table are recorded
  by the column each \<^verbatim>\<open>rename_map\<close> turns them into: \<open>Price\<close> is in the header of an
  AkShare table when the table has the column the AkShare map renames to
  \<^verbatim>\<open>price\<close>, and so on. A table need not carry every header (the docstring of
  \<^verbatim>\<open>get_market_snapshot\<close> says so of PE and market value). A row holds a cell for
  every column; the cell of a column the table lacks is never read. A cell of a numeric
  column is either a number (or text that parses as one) or something
  \<^verbatim>\<open>pd.to_numeric\<close> cannot parse, which \<^verbatim>\<open>errors='coerce'\<close> turns into NaN.
\<close>

datatype column = Code | Name | Price | PE | TotalMV | CircMV | PctChg

datatype cell = Numeric real | NonNumeric

fun to_numeric :: "cell \<Rightarrow> real option" where
  "to_numeric (Numeric v) = Some v"
| "to_numeric NonNumeric = None"

record RawRow =
  r_code :: string
  r_name :: string
  r_price :: cell
  r_pe :: cell
  r_total_mv :: cell
  r_circ_mv :: cell
  r_pct_chg :: cell

record RawTable =
  headers :: "column list"
  body :: "RawRow list"

definition coerce_row :: "RawRow \<Rightarrow> QuoteRow" where
  "coerce_row r =
     \<lparr> q_code = r_code r, q_name = r_name r,
       q_price = to_numeric (r_price r), q_pe = to_numeric (r_pe r),
       q_total_mv = to_numeric (r_total_mv r), q_circ_mv = to_numeric (r_circ_mv r),
       q_pct_chg = to_numeric (r_pct_chg r) \<rparr>"

text \<open>
  The frame \<^verbatim>\<open>get_market_snapshot\<close> returns: the columns it has under their
  standard names, and its rows. It is \<^verbatim>\<open>empty\<close> when it has no row.
\<close>

record QuoteFrame =
  columns :: "column list"
  rows :: snapshot

definition empty_frame :: QuoteFrame where
  "empty_frame = \<lparr> columns = [], rows = [] \<rparr>"

record providers =
  import_libs :: "unit outcome"
  stock_zh_a_spot_em :: "RawTable outcome"
  get_realtime_quotes :: "RawTable outcome"

text \<open>The log: one entry per \<^verbatim>\<open>logger\<close> call, with the values its message shows.\<close>

datatype log_level = INFO | WARNING | ERROR

datatype log_msg =
    AkTry | AkOk nat | AkFailed string | EfTry | SnapshotFailed string
  | ScreenStart | SnapshotUnavailable | FilterBefore nat | FilterAfter nat
  | PatternStage nat | PatternFetching | Progress nat nat | ScreenDone nat

type_synonym log = "(log_level \<times> log_msg) list"

text \<open>
  \<^verbatim>\<open>get_market_snapshot\<close>: AkShare first, its table renamed by the AkShare map;
  efinance when AkShare raises, its table renamed only when it has the efinance header
  of the code column. The numeric columns that are present are coerced. An exception of
  the imports or of efinance reaches the outer handler, which logs an error and returns
  the empty frame.
\<close>

definition get_market_snapshot :: "providers \<Rightarrow> QuoteFrame \<times> log" where
  "get_market_snapshot p =
     (case import_libs p of
        Raises e \<Rightarrow> (empty_frame, [(ERROR, SnapshotFailed e)])
      | Returns u \<Rightarrow>
          (case stock_zh_a_spot_em p of
             Returns t \<Rightarrow>
               (\<lparr> columns = headers t, rows = map coerce_row (body t) \<rparr>,
                [(INFO, AkTry), (INFO, AkOk (length (body t)))])
           | Raises e \<Rightarrow>
               (case get_realtime_quotes p of
                  Returns t \<Rightarrow>
                    (\<lparr> columns = (if Code \<in> set (headers t) then headers t else []),
                       rows = map coerce_row (body t) \<rparr>,
                     [(INFO, AkTry), (WARNING, AkFailed e), (INFO, EfTry)])
                | Raises e2 \<Rightarrow>
                    (empty_frame,
                     [(INFO, AkTry), (WARNING, AkFailed e), (INFO, EfTry),
                      (ERROR, SnapshotFailed e2)]))))"

text \<open>
  The call \<^verbatim>\<open>self.filter_basics(df_market)\<close> on a frame that may lack a column:
  \<^verbatim>\<open>df['price']\<close>, \<^verbatim>\<open>df['pe']\<close> and \<^verbatim>\<open>df['total_mv']\<close> raise \<^verbatim>\<open>KeyError\<close> in that
  order, after the first \<^verbatim>\<open>logger.info\<close>; with the three columns present the result
  is \<open>filter_basics\<close> of the rows. The log is returned beside the outcome.
\<close>

definition filter_basics_call :: "QuoteFrame \<Rightarrow> (string + snapshot) \<times> log" where
  "filter_basics_call df =
     (if rows df = [] then (Inr (rows df), [])
      else if Price \<notin> set (columns df)
        then (Inl ''KeyError: price'', [(INFO, FilterBefore (length (rows df)))])
      else if PE \<notin> set (columns df)
        then (Inl ''KeyError: pe'', [(INFO, FilterBefore (length (rows df)))])
      else if TotalMV \<notin> set (columns df)
        then (Inl ''KeyError: total_mv'', [(INFO, FilterBefore (length (rows df)))])
      else (Inr (filter_basics (rows df)),
            [(INFO, FilterBefore (length (rows df))),
             (INFO, FilterAfter (length (filter_basics (rows df))))]))"

type_synonym candidate = "string \<times> string"

text \<open>
  \<^verbatim>\<open>df_basics[['code', 'name']].to_dict('records')\<close>, which raises \<^verbatim>\<open>KeyError\<close>
  when one of the two columns is not in the frame.
\<close>

definition to_candidates :: "snapshot \<Rightarrow> candidate list" where
  "to_candidates df_basics = map (\<lambda>r. (q_code r, q_name r)) df_basics"

definition to_candidates_call :: "column list \<Rightarrow> snapshot \<Rightarrow> string + candidate list" where
  "to_candidates_call cols df_basics =
     (if Code \<in> set cols \<and> Name \<in> set cols then Inr (to_candidates df_basics)
      else Inl ''KeyError: code, name'')"

text \<open>
  The loop over \<^verbatim>\<open>as_completed\<close>, one step per finished future: the counter, the
  progress line at every fiftieth completion, and the hit appended when the evaluation
  returned one (the dictionary of a hit is never empty, so \<^verbatim>\<open>if res\<close> is the test
  for \<^verbatim>\<open>None\<close>).
\<close>

definition completion_step ::
  "('d::linorder) fetcher \<Rightarrow> nat \<Rightarrow> candidate
     \<Rightarrow> nat \<times> ScreenHit list \<times> log \<Rightarrow> nat \<times> ScreenHit list \<times> log" where
  "completion_step get_daily_data total_n stock st =
     (let (processed0, results, lg0) = st;
          processed = processed0 + 1;
          lg = (if processed mod 50 = 0
                then lg0 @ [(INFO, Progress processed total_n)] else lg0)
      in (case check_technical_pattern get_daily_data (fst stock) (snd stock) of
            Some res \<Rightarrow> (processed, results @ [res], lg)
          | None \<Rightarrow> (processed, results, lg)))"

text \<open>
  \<^verbatim>\<open>run_screen\<close>, for a screener built with \<^verbatim>\<open>max_workers\<close>. The result is the
  exception that leaves the method (\<open>Inl\<close>) or the returned list (\<open>Inr\<close>), beside the
  log written until then. \<^verbatim>\<open>ThreadPoolExecutor\<close> raises \<^verbatim>\<open>ValueError\<close> for a width
  that is not positive. With a positive width the pool decides only the order in which
  the futures complete; that order is the parameter \<open>completed\<close>, which maps the
  submitted candidates to the sequence \<^verbatim>\<open>as_completed\<close> yields (a permutation of
  them).
\<close>

definition run_screen ::
  "int \<Rightarrow> providers \<Rightarrow> ('d::linorder) fetcher \<Rightarrow> (candidate list \<Rightarrow> candidate list)
     \<Rightarrow> (string + ScreenHit list) \<times> log" where
  "run_screen max_workers p get_daily_data completed =
     (let (df_market, lg_snapshot) = get_market_snapshot p;
          lg1 = [(INFO, ScreenStart)] @ lg_snapshot
      in if rows df_market = [] then (Inr [], lg1 @ [(ERROR, SnapshotUnavailable)])
         else
           (case filter_basics_call df_market of
              (Inl e, lg_filter) \<Rightarrow> (Inl e, lg1 @ lg_filter)
            | (Inr df_basics, lg_filter) \<Rightarrow>
                (case to_candidates_call (columns df_market) df_basics of
                   Inl e \<Rightarrow> (Inl e, lg1 @ lg_filter)
                 | Inr candidates \<Rightarrow>
                     let lg2 = lg1 @ lg_filter
                           @ [(INFO, PatternStage (length candidates)),
                              (INFO, PatternFetching)]
                     in if max_workers \<le> 0
                        then (Inl ''ValueError: max_workers must be greater than 0'', lg2)
                        else
                          let (processed, results, lg3) =
                                fold (completion_step get_daily_data (length candidates))
                                     (completed candidates) (0, [], lg2)
                          in (Inr results, lg3 @ [(INFO, ScreenDone (length results))]))))"

subsection \<open>The four gates, as the specification words them\<close>

text \<open>
  The gates are stated on the frame \<open>df\<close> in ascending date order, by the positions of
  its bars, and do not use the definitions above. The window is the last 60 positions.
  A rally bar has a \<open>pct_chg\<close> present and above 9.5.
\<close>

definition window :: "'d DailyBar list \<Rightarrow> nat list" where
  "window df = [length df - 60 ..< length df]"

definition is_rally :: "'d DailyBar \<Rightarrow> bool" where
  "is_rally b = (case pct_chg b of Some v \<Rightarrow> v > 9.5 | None \<Rightarrow> False)"

definition rally_bars :: "'d DailyBar list \<Rightarrow> nat list" where
  "rally_bars df = filter (\<lambda>i. is_rally (df ! i)) (window df)"

definition start_close :: "'d DailyBar list \<Rightarrow> real option" where
  "start_close df = close (df ! (length df - 60))"

definition latest_close :: "'d DailyBar list \<Rightarrow> real option" where
  "latest_close df = close (df ! (length df - 1))"

text \<open>
  The interval return, from the first bar of the window to the latest close; it is
  defined when both closes are present and the first is not zero. The gate passes when
  the return does not exceed 0.5. Where the return is not defined the gate passes too,
  except for a positive latest close over a start close of zero (an unbounded rise).
  The value reported is the return times 100; NaN where a close is missing or both are
  zero, minus infinity for a negative latest close over zero.
\<close>

definition interval_return :: "'d DailyBar list \<Rightarrow> real option" where
  "interval_return df =
     (case (start_close df, latest_close df) of
        (Some s, Some c) \<Rightarrow> if s = 0 then None else Some ((c - s) / s)
      | _ \<Rightarrow> None)"

definition interval_gate :: "'d DailyBar list \<Rightarrow> bool" where
  "interval_gate df =
     (case interval_return df of
        Some r \<Rightarrow> r \<le> 0.5
      | None \<Rightarrow>
          (case (start_close df, latest_close df) of
             (Some s, Some c) \<Rightarrow> c \<le> 0
           | _ \<Rightarrow> True))"

definition interval_percent :: "'d DailyBar list \<Rightarrow> npfloat" where
  "interval_percent df =
     (case interval_return df of
        Some r \<Rightarrow> Fin (r * 100)
      | None \<Rightarrow>
          (case (start_close df, latest_close df) of
             (Some s, Some c) \<Rightarrow> if c < 0 then NInf else if c > 0 then PInf else NaN
           | _ \<Rightarrow> NaN))"

text \<open>
  The simple moving average of the last \<open>n\<close> closes, defined when the frame has \<open>n\<close>
  bars and those closes are present; the gate asks for the three averages to be defined
  and strictly descending.
\<close>

definition sma :: "nat \<Rightarrow> 'd DailyBar list \<Rightarrow> real option" where
  "sma n df =
     (if n \<le> length df \<and> list_all (\<lambda>i. close (df ! i) \<noteq> None) [length df - n ..< length df]
      then Some ((\<Sum>i\<leftarrow>[length df - n ..< length df]. the (close (df ! i))) / real n)
      else None)"

definition ma_gate :: "'d DailyBar list \<Rightarrow> bool" where
  "ma_gate df =
     (case (sma 5 df, sma 10 df, sma 20 df) of
        (Some m5, Some m10, Some m20) \<Rightarrow> m5 > m10 \<and> m10 > m20
      | _ \<Rightarrow> False)"

text \<open>
  The position of the latest close in the range from the lowest low to the highest high
  of the whole frame: 0 when the range has zero width, not defined when no low or no
  high is present, or when the latest close is missing. The gate passes when the
  position does not exceed 0.5 or is not defined; the value reported is the position
  times 100, NaN where it is not defined.
\<close>

definition present_highs :: "'d DailyBar list \<Rightarrow> real list" where
  "present_highs df = List.map_filter high df"

definition present_lows :: "'d DailyBar list \<Rightarrow> real list" where
  "present_lows df = List.map_filter low df"

definition range_position :: "'d DailyBar list \<Rightarrow> real option" where
  "range_position df =
     (if present_highs df = [] \<or> present_lows df = [] then None
      else
        let hi = Max (set (present_highs df)); lo = Min (set (present_lows df))
        in if hi = lo then Some 0
           else (case latest_close df of
                   Some c \<Rightarrow> Some ((c - lo) / (hi - lo))
                 | None \<Rightarrow> None))"

definition position_gate :: "'d DailyBar list \<Rightarrow> bool" where
  "position_gate df = (case range_position df of Some x \<Rightarrow> x \<le> 0.5 | None \<Rightarrow> True)"

definition position_percent :: "'d DailyBar list \<Rightarrow> npfloat" where
  "position_percent df = (case range_position df of Some x \<Rightarrow> Fin (x * 100) | None \<Rightarrow> NaN)"

definition all_gates_pass :: "'d DailyBar list \<Rightarrow> bool" where
  "all_gates_pass df =
     (rally_bars df \<noteq> [] \<and> interval_gate df \<and> ma_gate df \<and> position_gate df)"

text \<open>The record a passing series is reported as.\<close>

definition hit_of :: "string \<Rightarrow> string \<Rightarrow> 'd DailyBar list \<Rightarrow> ScreenHit" where
  "hit_of c n df =
     \<lparr> code = c, name = n, price = latest_close df,
       limit_up_count = length (rally_bars df),
       interval_increase = interval_percent df,
       position_rank = position_percent df \<rparr>"

text \<open>The columns \<^verbatim>\<open>run_screen\<close> reads from the snapshot.\<close>

definition has_required_columns :: "QuoteFrame \<Rightarrow> bool" where
  "has_required_columns df =
     list_all (\<lambda>c. c \<in> set (columns df)) [Code, Name, Price, PE, TotalMV]"



subsection \<open>Concrete series\<close>

text \<open>
  The series of scenario B, 60 bars given latest first: one bar with \<open>pct_chg = 10.2\<close>,
  closes with \<open>MA5 = 11\<close>, \<open>MA10 = 10\<close>, \<open>MA20 = 9\<close>, a latest close of 12 against 10
  at the start of the window, and an annual range of \<open>[6, 26]\<close>.
\<close>

definition close_B :: "nat \<Rightarrow> real" where
  "close_B i =
     (if i < 40 then 10 else if i < 50 then 8 else if i < 55 then 9
      else if i < 57 then 10 else if i < 58 then 11 else 12)"

definition bar_B :: "nat \<Rightarrow> nat DailyBar" where
  "bar_B i = \<lparr> date = i, close = Some (close_B i),
               high = Some (if i = 20 then 26 else close_B i + 1),
               low = Some (if i = 45 then 6 else close_B i - 1),
               pct_chg = Some (if i = 30 then 10.2 else 0) \<rparr>"

definition series_B :: "nat DailyBar list" where
  "series_B = map bar_B (rev [0..<60])"

definition fetch_B :: "nat fetcher" where
  "fetch_B c days = Returns (Some series_B)"




text \<open>
  A series of 61 bars whose only rally bar is the oldest one, outside the window; the
  last 60 bars are those of scenario B without their rally bar.
\<close>

definition bar_old_rally :: "nat \<Rightarrow> nat DailyBar" where
  "bar_old_rally i =
     (if i = 0
      then \<lparr> date = 0, close = Some 10, high = Some 11, low = Some 9, pct_chg = Some 10.2 \<rparr>
      else (bar_B (i - 1)) \<lparr> date := i, pct_chg := Some 0 \<rparr>)"

definition series_old_rally :: "nat DailyBar list" where
  "series_old_rally = map bar_old_rally (rev [0..<61])"

definition fetch_old_rally :: "nat fetcher" where
  "fetch_old_rally c days = Returns (Some series_old_rally)"

text \<open>
  Variants of the series of scenario B: no bar above the rally threshold (every
  \<open>pct_chg\<close> at 9.5), the close at the start of the window lowered to 7.5 (an interval
  return of 60 percent), highs and lows all 5 (an annual range of zero width), highs one
  above the close on every bar (which puts the latest close high in the range), and the
  rows in the opposite order; a fetch that raises, one that returns no frame, and a
  frame of 59 bars.
\<close>

definition series_no_rally :: "nat DailyBar list" where
  "series_no_rally = map (\<lambda>b. b\<lparr>pct_chg := Some 9.5\<rparr>) series_B"

definition fetch_no_rally :: "nat fetcher" where
  "fetch_no_rally c days = Returns (Some series_no_rally)"

definition series_C :: "nat DailyBar list" where
  "series_C = map (\<lambda>b. if date b = 0 then b\<lparr>close := Some 7.5\<rparr> else b) series_B"

definition fetch_C :: "nat fetcher" where
  "fetch_C c days = Returns (Some series_C)"

definition series_flat_range :: "nat DailyBar list" where
  "series_flat_range = map (\<lambda>b. b\<lparr>high := Some 5, low := Some 5\<rparr>) series_B"

definition fetch_flat_range :: "nat fetcher" where
  "fetch_flat_range c days = Returns (Some series_flat_range)"



definition series_B_reversed :: "nat DailyBar list" where
  "series_B_reversed = rev series_B"

definition fetch_B_reversed :: "nat fetcher" where
  "fetch_B_reversed c days = Returns (Some series_B_reversed)"

definition fetch_raises :: "nat fetcher" where
  "fetch_raises c days = Raises ''ConnectionError''"



text \<open>
  Series outside the data model: the close at the start of the window missing, and lows
  of 14 and highs of 34 on every bar, above the latest close 12.
\<close>

definition series_missing_start :: "nat DailyBar list" where
  "series_missing_start = map (\<lambda>b. if date b = 0 then b\<lparr>close := None\<rparr> else b) series_B"

definition fetch_missing_start :: "nat fetcher" where
  "fetch_missing_start c days = Returns (Some series_missing_start)"

definition series_below :: "nat DailyBar list" where
  "series_below = map (\<lambda>b. b\<lparr>high := Some 34, low := Some 14\<rparr>) series_B"

definition fetch_below :: "nat fetcher" where
  "fetch_below c days = Returns (Some series_below)"

text \<open>
  A quote table of four rows, of which the first and the last pass the basic filter
  (the second is above the price ceiling, the third has no PE). As AkShare returns it
  the table has every header; as efinance returns it the header the map renames to
  \<^verbatim>\<open>pe\<close> is not there. Three provider pairs: AkShare answers; AkShare raises and
  efinance answers; both raise.
\<close>

definition quote_row :: "string \<Rightarrow> string \<Rightarrow> cell \<Rightarrow> cell \<Rightarrow> cell \<Rightarrow> RawRow" where
  "quote_row c n p e mv =
     \<lparr> r_code = c, r_name = n, r_price = p, r_pe = e, r_total_mv = mv,
       r_circ_mv = mv, r_pct_chg = Numeric 1 \<rparr>"

definition market_rows :: "RawRow list" where
  "market_rows =
     [quote_row ''600000'' ''alpha'' (Numeric 15) (Numeric 12) (Numeric 5000000000),
      quote_row ''600001'' ''beta'' (Numeric 25) (Numeric 12) (Numeric 5000000000),
      quote_row ''600002'' ''gamma'' (Numeric 15) NonNumeric (Numeric 5000000000),
      quote_row ''000001'' ''delta'' (Numeric 8) (Numeric 30) (Numeric 20000000000)]"

definition all_headers :: "column list" where
  "all_headers = [Code, Name, Price, PE, TotalMV, CircMV, PctChg]"

definition providers_up :: providers where
  "providers_up =
     \<lparr> import_libs = Returns (),
       stock_zh_a_spot_em = Returns \<lparr> headers = all_headers, body = market_rows \<rparr>,
       get_realtime_quotes = Raises ''ConnectionError'' \<rparr>"

definition providers_fallback :: providers where
  "providers_fallback =
     \<lparr> import_libs = Returns (),
       stock_zh_a_spot_em = Raises ''ConnectionError'',
       get_realtime_quotes = Returns \<lparr> headers = all_headers, body = market_rows \<rparr> \<rparr>"

definition providers_fallback_no_pe :: providers where
  "providers_fallback_no_pe =
     \<lparr> import_libs = Returns (),
       stock_zh_a_spot_em = Raises ''ConnectionError'',
       get_realtime_quotes =
         Returns \<lparr> headers = [Code, Name, Price, TotalMV, CircMV, PctChg],
                   body = market_rows \<rparr> \<rparr>"

definition providers_down :: providers where
  "providers_down =
     \<lparr> import_libs = Returns (), stock_zh_a_spot_em = Raises ''ConnectionError'',
       get_realtime_quotes = Raises ''Timeout'' \<rparr>"

section \<open>Properties\<close>

subsection \<open>The basic filter\<close>

lemma filter_basics_eq_filter: "filter_basics df = filter passes_basics df"
proof -
  have "filter_basics df =
      filter (\<lambda>r. nan_le (q_price r) 20 \<and> nan_gt (q_pe r) 0
                 \<and> nan_le (q_total_mv r) market_cap_limit) df"
    by (cases df) (auto simp: filter_basics_def Let_def intro: filter_cong)
  also have "\<dots> = filter passes_basics df"
    by (rule filter_cong) (simp_all add: passes_basics_def market_cap_limit_def)
  finally show ?thesis .
qed



text \<open>
  Claim C7. \<^verbatim>\<open>filter_basics\<close> is idempotent: filtering a filtered snapshot changes
  nothing.
\<close>

theorem filter_basics_idempotent:
  "filter_basics (filter_basics X) = filter_basics X"
  by (simp add: filter_basics_eq_filter)

subsection \<open>The signals of the code and the gates of the specification\<close>

lemma drop_as_nth: "drop k xs = map ((!) xs) [k..<length xs]"
  by (rule nth_equalityI) auto

lemma df_60_window: "df_60 df = map ((!) df) (window df)"
  by (simp add: df_60_def tail_rows_def window_def drop_as_nth)

lemma is_rally_iff: "is_rally b = nan_gt (pct_chg b) 9.5"
  by (cases "pct_chg b") (simp_all add: is_rally_def)

lemma limit_up_days_rally: "limit_up_days df = map ((!) df) (rally_bars df)"
  by (simp add: limit_up_days_def rally_bars_def df_60_window filter_map comp_def is_rally_iff)

lemma length_limit_up_days: "length (limit_up_days df) = length (rally_bars df)"
  by (simp add: limit_up_days_rally)

lemma current_price_latest: "df \<noteq> [] \<Longrightarrow> current_price df = latest_close df"
  by (simp add: current_price_def latest_close_def last_conv_nth)

lemma price_60_start: "60 \<le> length df \<Longrightarrow> price_60_days_ago df = start_close df"
  by (simp add: price_60_days_ago_def start_close_def df_60_def tail_rows_def hd_drop_conv_nth)

lemma interval_gate_code:
  assumes "60 \<le> length df"
  shows "np_gt (interval_increase_of df) 0.5 = (\<not> interval_gate df)"
proof -
  from assms have ne: "df \<noteq> []" by auto
  show ?thesis
    by (cases "start_close df"; cases "latest_close df")
       (auto simp: interval_increase_of_def current_price_latest [OF ne]
          price_60_start [OF assms] interval_gate_def interval_return_def)
qed

lemma interval_percent_code:
  assumes "60 \<le> length df"
  shows "np_times (interval_increase_of df) 100 = interval_percent df"
proof -
  from assms have ne: "df \<noteq> []" by auto
  show ?thesis
    by (cases "start_close df"; cases "latest_close df")
       (auto simp: interval_increase_of_def current_price_latest [OF ne]
          price_60_start [OF assms] interval_percent_def interval_return_def)
qed

lemma rolling_mean_last_sma: "rolling_mean_last n df = sma n df"
proof (cases "length df < n")
  case True
  then show ?thesis by (simp add: rolling_mean_last_def sma_def)
next
  case False
  let ?is = "[length df - n ..< length df]"
  have w: "map close (tail_rows n df) = map (\<lambda>i. close (df ! i)) ?is"
    by (simp add: tail_rows_def drop_as_nth)
  have m: "(None \<in> set (map (\<lambda>i. close (df ! i)) ?is))
      = (\<not> list_all (\<lambda>i. close (df ! i) \<noteq> None) ?is)"
    by (simp add: list_all_iff image_iff) (metis atLeastLessThan_iff)
  have s: "sum_list (map the (map (\<lambda>i. close (df ! i)) ?is))
      = (\<Sum>i\<leftarrow>?is. the (close (df ! i)))"
    by (simp add: comp_def)
  from False show ?thesis
    by (simp only: rolling_mean_last_def sma_def w Let_def m s) auto
qed

lemma ma_gate_code:
  "(nan_gt2 (rolling_mean_last 5 df) (rolling_mean_last 10 df)
     \<and> nan_gt2 (rolling_mean_last 10 df) (rolling_mean_last 20 df)) = ma_gate df"
  by (cases "sma 5 df"; cases "sma 10 df"; cases "sma 20 df")
     (simp_all add: rolling_mean_last_sma ma_gate_def)

lemma map_filter_map_id: "List.map_filter (\<lambda>c. c) (map f xs) = List.map_filter f xs"
  by (induction xs) (auto simp: List.map_filter_simps split: option.splits)

lemma nanmax_Max:
  "nanmax cs = (if List.map_filter (\<lambda>c. c) cs = [] then None
                else Some (Max (set (List.map_filter (\<lambda>c. c) cs))))"
  by (cases "List.map_filter (\<lambda>c. c) cs") (simp_all add: nanmax_def Max.set_eq_fold [symmetric])

lemma nanmin_Min:
  "nanmin cs = (if List.map_filter (\<lambda>c. c) cs = [] then None
                else Some (Min (set (List.map_filter (\<lambda>c. c) cs))))"
  by (cases "List.map_filter (\<lambda>c. c) cs") (simp_all add: nanmin_def Min.set_eq_fold [symmetric])

lemma year_high_present:
  "year_high df = (if present_highs df = [] then None
                   else Some (Max (set (present_highs df))))"
  by (simp add: year_high_def nanmax_Max map_filter_map_id present_highs_def)

lemma year_low_present:
  "year_low df = (if present_lows df = [] then None
                  else Some (Min (set (present_lows df))))"
  by (simp add: year_low_def nanmin_Min map_filter_map_id present_lows_def)

lemma position_rank_range:
  assumes "df \<noteq> []"
  shows "position_rank_of df = (case range_position df of Some x \<Rightarrow> Fin x | None \<Rightarrow> NaN)"
  by (cases "latest_close df")
     (auto simp: position_rank_of_def range_position_def year_high_present year_low_present
        current_price_latest [OF assms] Let_def)

lemma position_gate_code:
  "df \<noteq> [] \<Longrightarrow> np_gt (position_rank_of df) 0.5 = (\<not> position_gate df)"
  by (cases "range_position df") (auto simp: position_rank_range position_gate_def)

lemma position_percent_code:
  "df \<noteq> [] \<Longrightarrow> np_times (position_rank_of df) 100 = position_percent df"
  by (cases "range_position df") (auto simp: position_rank_range position_percent_def)

subsection \<open>The pattern evaluator\<close>




lemma length_sort_values_date: "length (sort_values_date df0) = length df0"
  by (simp add: sort_values_date_def)

lemma check_frame:
  assumes "get_daily_data c 250 = Returns (Some df0)" and "60 \<le> length df0"
  shows "check_technical_pattern get_daily_data c n =
     (if all_gates_pass (sort_values_date df0)
      then Some (hit_of c n (sort_values_date df0)) else None)"
proof -
  let ?df = "sort_values_date df0"
  from assms(2) have ne0: "df0 \<noteq> []" "\<not> length df0 < 60" by auto
  from assms(2) have len: "60 \<le> length ?df" by (simp add: length_sort_values_date)
  then have ne: "?df \<noteq> []" by auto
  have g1: "(length (limit_up_days ?df) = 0) = (rally_bars ?df = [])"
    by (simp add: length_limit_up_days)
  have g3: "(\<not> (nan_gt2 (rolling_mean_last 5 ?df) (rolling_mean_last 10 ?df)
      \<and> nan_gt2 (rolling_mean_last 10 ?df) (rolling_mean_last 20 ?df))) = (\<not> ma_gate ?df)"
    by (simp only: ma_gate_code)
  have body: "pattern_body get_daily_data c n =
      (if rally_bars ?df = [] then Inr None
       else if \<not> interval_gate ?df then Inr None
       else if \<not> ma_gate ?df then Inr None
       else if \<not> position_gate ?df then Inr None
       else Inr (Some (hit_of c n ?df)))"
    unfolding pattern_body_def Let_def
    by (simp only: assms(1) outcome.case option.case ne0 g1 g3 interval_gate_code [OF len]
        position_gate_code [OF ne] interval_percent_code [OF len]
        position_percent_code [OF ne] current_price_latest [OF ne]
        length_limit_up_days hit_of_def) simp
  show ?thesis
    by (simp add: check_technical_pattern_def body all_gates_pass_def)
qed





lemma series_old_rally_sorted:
  "sort_values_date series_old_rally = map bar_old_rally [0..<61]"
  by code_simp



lemma rally_bars_empty:
  assumes "\<forall>b \<in> set (df_60 df). \<not> is_rally b"
  shows "rally_bars df = []"
proof -
  have "filter is_rally (df_60 df) = []" using assms by (simp add: filter_empty_conv)
  then have "map ((!) df) (rally_bars df) = []"
    by (simp add: df_60_window rally_bars_def filter_map comp_def)
  then show ?thesis by simp
qed

text \<open>
  Claim C4. On a fetched series of at least 60 bars in which no bar of the latest 60
  has \<open>pct_chg > 9.5\<close>, the evaluator returns \<^verbatim>\<open>None\<close>, whatever the other three
  gates would say.
\<close>

theorem no_rally_bar_absent:
  "get_daily_data c 250 = Returns (Some df0) \<Longrightarrow> 60 \<le> length df0
   \<Longrightarrow> \<forall>b \<in> set (df_60 (sort_values_date df0)). \<not> is_rally b
   \<Longrightarrow> check_technical_pattern get_daily_data c n = None"
  by (simp add: check_frame all_gates_pass_def rally_bars_empty)

theorem no_rally_bar_absent_witness:
  "fetch_no_rally ''600000'' 250 = Returns (Some series_no_rally)
   \<and> 60 \<le> length series_no_rally
   \<and> filter is_rally (df_60 (sort_values_date series_no_rally)) = []
   \<and> pct_chg (hd (sort_values_date series_no_rally)) = Some 9.5
   \<and> interval_gate (sort_values_date series_no_rally)
   \<and> ma_gate (sort_values_date series_no_rally)
   \<and> position_gate (sort_values_date series_no_rally)
   \<and> check_technical_pattern fetch_no_rally ''600000'' ''demo'' = None
   \<and> fetch_old_rally ''600000'' 250 = Returns (Some series_old_rally)
   \<and> 60 \<le> length series_old_rally
   \<and> filter is_rally (df_60 (sort_values_date series_old_rally)) = []
   \<and> check_technical_pattern fetch_old_rally ''600000'' ''demo'' = None"
proof -
  let ?N = "sort_values_date series_no_rally"
  let ?O = "sort_values_date series_old_rally"
  have f: "fetch_no_rally ''600000'' 250 = Returns (Some series_no_rally)"
    by (simp add: fetch_no_rally_def)
  have l: "60 \<le> length series_no_rally"
    by (simp add: series_no_rally_def series_B_def)
  have r0: "filter is_rally (df_60 ?N) = []" by code_simp
  then have r: "\<forall>b \<in> set (df_60 ?N). \<not> is_rally b" by (simp add: filter_empty_conv)
  have p: "pct_chg (hd ?N) = Some 9.5" by code_simp
  have i: "interval_gate ?N" by code_simp
  have m: "ma_gate ?N" by code_simp
  have k: "position_gate ?N" by code_simp
  have n1: "check_technical_pattern fetch_no_rally ''600000'' ''demo'' = None"
    using no_rally_bar_absent [of fetch_no_rally "''600000''" series_no_rally "''demo''"] f l r
    by blast
  have fO: "fetch_old_rally ''600000'' 250 = Returns (Some series_old_rally)"
    by (simp add: fetch_old_rally_def)
  have lO: "60 \<le> length series_old_rally" by (simp add: series_old_rally_def)
  have rO0: "filter is_rally (df_60 ?O) = []"
    unfolding series_old_rally_sorted by code_simp
  then have rO: "\<forall>b \<in> set (df_60 ?O). \<not> is_rally b" by (simp add: filter_empty_conv)
  have n2: "check_technical_pattern fetch_old_rally ''600000'' ''demo'' = None"
    using no_rally_bar_absent [of fetch_old_rally "''600000''" series_old_rally "''demo''"]
      fO lO rO
    by blast
  from f l r0 p i m k n1 fO lO rO0 n2 show ?thesis by blast
qed

text \<open>
  Claim C5. On a fetched series of at least 60 bars whose interval return, from the
  first bar of the 60-bar window to the latest close, exceeds 50 percent, the evaluator
  returns \<^verbatim>\<open>None\<close>; in particular on the series of scenario B with an interval
  return of 60 percent in place of 20.
\<close>

theorem interval_ceiling_absent:
  "(get_daily_data c 250 = Returns (Some df0) \<and> 60 \<le> length df0
      \<and> np_gt (interval_increase_of (sort_values_date df0)) 0.5
    \<longrightarrow> check_technical_pattern get_daily_data c n = None)
   \<and> (get_daily_data c 250 = Returns (Some df0) \<and> 60 \<le> length df0
        \<and> interval_return (sort_values_date df0) = Some r \<and> r > 0.5
      \<longrightarrow> check_technical_pattern get_daily_data c n = None)
   \<and> (get_daily_data c 250 = Returns (Some df0) \<and> 60 \<le> length df0
          \<and> df = sort_values_date df0
          \<and> limit_up_days df = [b] \<and> pct_chg b = Some 10.2
          \<and> interval_increase_of df = Fin 0.6
          \<and> sma 5 df = Some 11 \<and> sma 10 df = Some 10 \<and> sma 20 df = Some 9
          \<and> np_times (position_rank_of df) 100 = Fin 30
        \<longrightarrow> check_technical_pattern get_daily_data c n = None)"
proof (intro conjI impI)
  assume a: "get_daily_data c 250 = Returns (Some df0) \<and> 60 \<le> length df0
      \<and> np_gt (interval_increase_of (sort_values_date df0)) 0.5"
  then have "60 \<le> length (sort_values_date df0)" by (simp add: length_sort_values_date)
  then have "np_gt (interval_increase_of (sort_values_date df0)) 0.5
      = (\<not> interval_gate (sort_values_date df0))"
    by (rule interval_gate_code)
  with a have "\<not> interval_gate (sort_values_date df0)" by blast
  with a show "check_technical_pattern get_daily_data c n = None"
    by (simp add: check_frame all_gates_pass_def)
next
  assume "get_daily_data c 250 = Returns (Some df0) \<and> 60 \<le> length df0
        \<and> interval_return (sort_values_date df0) = Some r \<and> r > 0.5"
  then show "check_technical_pattern get_daily_data c n = None"
    by (simp add: check_frame all_gates_pass_def interval_gate_def)
next
  assume a: "get_daily_data c 250 = Returns (Some df0) \<and> 60 \<le> length df0
          \<and> df = sort_values_date df0
          \<and> limit_up_days df = [b] \<and> pct_chg b = Some 10.2
          \<and> interval_increase_of df = Fin 0.6
          \<and> sma 5 df = Some 11 \<and> sma 10 df = Some 10 \<and> sma 20 df = Some 9
          \<and> np_times (position_rank_of df) 100 = Fin 30"
  then have g: "get_daily_data c 250 = Returns (Some df0)" and len: "60 \<le> length df0"
    and d: "df = sort_values_date df0" and ii: "interval_increase_of df = Fin 0.6"
    by blast+
  from len d have "60 \<le> length df" by (simp add: length_sort_values_date)
  then have "np_gt (interval_increase_of df) 0.5 = (\<not> interval_gate df)"
    by (rule interval_gate_code)
  with ii have "\<not> all_gates_pass df" by (simp add: all_gates_pass_def)
  moreover have "check_technical_pattern get_daily_data c n =
      (if all_gates_pass df then Some (hit_of c n df) else None)"
    using check_frame [of get_daily_data c df0 n] g len by (simp only: d)
  ultimately show "check_technical_pattern get_daily_data c n = None" by simp
qed

theorem interval_ceiling_absent_witness:
  "fetch_C ''600000'' 250 = Returns (Some series_C) \<and> 60 \<le> length series_C
   \<and> limit_up_days (sort_values_date series_C) = [bar_B 30]
   \<and> pct_chg (bar_B 30) = Some 10.2
   \<and> interval_increase_of (sort_values_date series_C) = Fin 0.6
   \<and> np_gt (interval_increase_of (sort_values_date series_C)) 0.5
   \<and> interval_return (sort_values_date series_C) = Some 0.6
   \<and> sma 5 (sort_values_date series_C) = Some 11
   \<and> sma 10 (sort_values_date series_C) = Some 10
   \<and> sma 20 (sort_values_date series_C) = Some 9
   \<and> np_times (position_rank_of (sort_values_date series_C)) 100 = Fin 30
   \<and> check_technical_pattern fetch_C ''600000'' ''demo'' = None"
proof -
  let ?C = "sort_values_date series_C"
  have f: "fetch_C ''600000'' 250 = Returns (Some series_C)"
    by (simp add: fetch_C_def)
  have l: "60 \<le> length series_C" by (simp add: series_C_def series_B_def)
  have r: "limit_up_days ?C = [bar_B 30]" by code_simp
  have p: "pct_chg (bar_B 30) = Some 10.2" by (simp add: bar_B_def)
  have i: "interval_increase_of ?C = Fin 0.6" by code_simp
  have i': "np_gt (interval_increase_of ?C) 0.5" by (simp add: i)
  have ir: "interval_return ?C = Some 0.6" by code_simp
  have m5: "sma 5 ?C = Some 11" by code_simp
  have m10: "sma 10 ?C = Some 10" by code_simp
  have m20: "sma 20 ?C = Some 9" by code_simp
  have k: "np_times (position_rank_of ?C) 100 = Fin 30" by code_simp
  have "check_technical_pattern fetch_C ''600000'' ''demo'' = None"
    using interval_ceiling_absent [where get_daily_data = fetch_C and c = "''600000''"
        and ?df0.0 = series_C and n = "''demo''" and df = ?C and b = "bar_B 30"]
      f l r p i m5 m10 m20 k
    by blast
  with f l r p i i' ir m5 m10 m20 k show ?thesis by blast
qed














lemma sort_values_date_perm:
  assumes "mset df0' = mset df0" and "distinct (map date df0)"
  shows "sort_values_date df0' = sort_values_date df0"
  unfolding sort_values_date_def
proof (rule sort_key_inj_key_eq)
  show "mset df0' = mset (sort_key date df0)" using assms(1) by simp
  from assms(2) have "inj_on date (set df0)" by (simp add: distinct_map)
  moreover from assms(1) have "set df0' = set df0" by (rule mset_eq_setD)
  ultimately show "inj_on date (set df0')" by simp
  show "sorted (map date (sort_key date df0))" by simp
qed

text \<open>
  Claim C10. The result of \<^verbatim>\<open>check_technical_pattern\<close> does not depend on the order in
  which the fetch returns the daily bars, as long as the dates are distinct: the
  evaluator sorts by date before it reads any signal.
\<close>

theorem check_technical_pattern_permutation:
  assumes "mset df0' = mset df0" and "distinct (map date df0)"
    and "get_daily_data c 250 = Returns (Some df0)"
    and "get_daily_data' c 250 = Returns (Some df0')"
  shows "check_technical_pattern get_daily_data' c n = check_technical_pattern get_daily_data c n"
proof -
  from assms(1) have len: "length df0' = length df0" by (rule mset_eq_length)
  then have ne: "(df0' = []) = (df0 = [])" by auto
  have srt: "sort_values_date df0' = sort_values_date df0"
    using assms(1,2) by (rule sort_values_date_perm)
  show ?thesis
    by (simp add: check_technical_pattern_def pattern_body_def assms(3,4) len ne srt)
qed

theorem check_technical_pattern_permutation_witness:
  "mset series_B_reversed = mset series_B \<and> distinct (map date series_B)
   \<and> series_B_reversed \<noteq> series_B
   \<and> fetch_B ''600000'' 250 = Returns (Some series_B)
   \<and> fetch_B_reversed ''600000'' 250 = Returns (Some series_B_reversed)
   \<and> check_technical_pattern fetch_B_reversed ''600000'' ''demo''
       = check_technical_pattern fetch_B ''600000'' ''demo''"
proof -
  have m: "mset series_B_reversed = mset series_B" by (simp add: series_B_reversed_def)
  have d: "distinct (map date series_B)" by code_simp
  have n: "series_B_reversed \<noteq> series_B" by code_simp
  have f: "fetch_B ''600000'' 250 = Returns (Some series_B)" by (simp add: fetch_B_def)
  have f': "fetch_B_reversed ''600000'' 250 = Returns (Some series_B_reversed)"
    by (simp add: fetch_B_reversed_def)
  have "check_technical_pattern fetch_B_reversed ''600000'' ''demo''
       = check_technical_pattern fetch_B ''600000'' ''demo''"
    using check_technical_pattern_permutation
      [of series_B_reversed series_B fetch_B "''600000''" fetch_B_reversed "''demo''"] m d f f'
    by blast
  with m d n f f' show ?thesis by blast
qed

subsection \<open>The orchestrator\<close>

lemma completion_step_eq:
  "completion_step g t c (k, rs, lg) =
     (Suc k,
      rs @ (case check_technical_pattern g (fst c) (snd c) of None \<Rightarrow> [] | Some res \<Rightarrow> [res]),
      if Suc k mod 50 = 0 then lg @ [(INFO, Progress (Suc k) t)] else lg)"
  by (simp add: completion_step_def Let_def split: option.splits)

lemma fold_completion_results:
  "fst (snd (fold (completion_step g t) cs (k, rs, lg))) =
     rs @ List.map_filter (\<lambda>s. check_technical_pattern g (fst s) (snd s)) cs"
proof (induction cs arbitrary: k rs lg)
  case Nil
  show ?case by (simp add: List.map_filter_simps)
next
  case (Cons c cs)
  show ?case
    by (simp only: fold_simps completion_step_eq Cons.IH)
       (simp add: List.map_filter_simps split: option.splits)
qed

lemma run_screen_outcome:
  "fst (run_screen w p g completed) =
     (let df = fst (get_market_snapshot p) in
      if rows df = [] then Inr []
      else if Price \<notin> set (columns df) then Inl ''KeyError: price''
      else if PE \<notin> set (columns df) then Inl ''KeyError: pe''
      else if TotalMV \<notin> set (columns df) then Inl ''KeyError: total_mv''
      else if \<not> (Code \<in> set (columns df) \<and> Name \<in> set (columns df))
        then Inl ''KeyError: code, name''
      else if w \<le> 0 then Inl ''ValueError: max_workers must be greater than 0''
      else Inr (List.map_filter (\<lambda>s. check_technical_pattern g (fst s) (snd s))
                  (completed (to_candidates (filter_basics (rows df))))))"
proof -
  obtain df lg where s: "get_market_snapshot p = (df, lg)" by (cases "get_market_snapshot p")
  let ?cs = "to_candidates (filter_basics (rows df))"
  let ?lg2 = "[(INFO, ScreenStart)] @ lg
       @ [(INFO, FilterBefore (length (rows df))),
          (INFO, FilterAfter (length (filter_basics (rows df))))]
       @ [(INFO, PatternStage (length ?cs)), (INFO, PatternFetching)]"
  obtain k rs lg3 where f:
    "fold (completion_step g (length ?cs)) (completed ?cs) (0, [], ?lg2) = (k, rs, lg3)"
    by (cases "fold (completion_step g (length ?cs)) (completed ?cs) (0, [], ?lg2)") auto
  from fold_completion_results [of g "length ?cs" "completed ?cs" 0 "[]" ?lg2] f
  have rs: "rs = List.map_filter (\<lambda>s. check_technical_pattern g (fst s) (snd s)) (completed ?cs)"
    by simp
  show ?thesis
    using s f rs
    by (simp add: run_screen_def filter_basics_call_def to_candidates_call_def Let_def)
qed

lemma run_screen_empty:
  assumes "rows (fst (get_market_snapshot p)) = []"
  shows "run_screen w p g completed =
     (Inr [], [(INFO, ScreenStart)] @ snd (get_market_snapshot p)
                @ [(ERROR, SnapshotUnavailable)])"
proof -
  obtain df lg where s: "get_market_snapshot p = (df, lg)" by (cases "get_market_snapshot p")
  with assms have "rows df = []" by simp
  with s show ?thesis by (simp add: run_screen_def)
qed

lemma map_filter_all_None:
  "(\<And>x. x \<in> set xs \<Longrightarrow> f x = None) \<Longrightarrow> List.map_filter f xs = []"
  by (induction xs) (simp_all add: List.map_filter_simps)

lemma mset_map_filter_perm:
  "mset xs = mset ys \<Longrightarrow> mset (List.map_filter f xs) = mset (List.map_filter f ys)"
proof -
  assume a: "mset xs = mset ys"
  have "mset (List.map_filter f zs) = image_mset (the \<circ> f) (filter_mset (\<lambda>x. f x \<noteq> None) (mset zs))"
    for zs by (simp add: List.map_filter_def)
  with a show ?thesis by simp
qed

text \<open>
  Claim C3. An exception leaving the body of \<^verbatim>\<open>check_technical_pattern\<close>, such as
  the one a failing fetch raises, is caught there and the evaluator returns
  \<^verbatim>\<open>None\<close>. So when the evaluation of every candidate raises, whatever
  \<^verbatim>\<open>run_screen\<close> returns is the empty list, in whatever order the evaluations
  complete; and it does return, once the snapshot has the columns the run reads and the
  pool has a positive width, which is what lets the evaluations take place.
\<close>

theorem evaluation_errors_swallowed:
  "(pattern_body g c n = Inl e \<longrightarrow> check_technical_pattern g c n = None)
   \<and> (g c 250 = Raises e \<longrightarrow> pattern_body g c n = Inl e)
   \<and> (cands = to_candidates (filter_basics (rows (fst (get_market_snapshot p))))
        \<and> mset (completed cands) = mset cands
        \<and> (\<forall>s \<in> set cands. \<exists>e. pattern_body g (fst s) (snd s) = Inl e)
        \<and> fst (run_screen w p g completed) = Inr rs
      \<longrightarrow> rs = [])
   \<and> (cands = to_candidates (filter_basics (rows (fst (get_market_snapshot p))))
        \<and> mset (completed cands) = mset cands
        \<and> (\<forall>s \<in> set cands. \<exists>e. pattern_body g (fst s) (snd s) = Inl e)
        \<and> has_required_columns (fst (get_market_snapshot p)) \<and> 0 < w
      \<longrightarrow> fst (run_screen w p g completed) = Inr [])"
proof -
  have none: "List.map_filter (\<lambda>s. check_technical_pattern g (fst s) (snd s))
        (completed cands) = []"
    if a: "mset (completed cands) = mset cands"
      "\<forall>s \<in> set cands. \<exists>e. pattern_body g (fst s) (snd s) = Inl e"
    for cands :: "candidate list"
  proof (rule map_filter_all_None)
    fix s assume "s \<in> set (completed cands)"
    moreover from a(1) have "set (completed cands) = set cands" by (rule mset_eq_setD)
    ultimately have "s \<in> set cands" by simp
    with a(2) show "check_technical_pattern g (fst s) (snd s) = None"
      by (auto simp: check_technical_pattern_def)
  qed
  show ?thesis
  proof (intro conjI impI)
    assume "pattern_body g c n = Inl e"
    then show "check_technical_pattern g c n = None"
      by (simp add: check_technical_pattern_def)
  next
    assume "g c 250 = Raises e"
    then show "pattern_body g c n = Inl e" by (simp add: pattern_body_def)
  next
    assume a: "cands = to_candidates (filter_basics (rows (fst (get_market_snapshot p))))
        \<and> mset (completed cands) = mset cands
        \<and> (\<forall>s \<in> set cands. \<exists>e. pattern_body g (fst s) (snd s) = Inl e)
        \<and> fst (run_screen w p g completed) = Inr rs"
    then have "List.map_filter (\<lambda>s. check_technical_pattern g (fst s) (snd s))
        (completed cands) = []"
      by (blast intro: none)
    with a show "rs = []"
      by (auto simp: run_screen_outcome Let_def split: if_splits)
  next
    assume a: "cands = to_candidates (filter_basics (rows (fst (get_market_snapshot p))))
        \<and> mset (completed cands) = mset cands
        \<and> (\<forall>s \<in> set cands. \<exists>e. pattern_body g (fst s) (snd s) = Inl e)
        \<and> has_required_columns (fst (get_market_snapshot p)) \<and> 0 < w"
    then have "List.map_filter (\<lambda>s. check_technical_pattern g (fst s) (snd s))
        (completed cands) = []"
      by (blast intro: none)
    with a show "fst (run_screen w p g completed) = Inr []"
      by (auto simp: run_screen_outcome Let_def has_required_columns_def)
  qed
qed

theorem evaluation_errors_swallowed_witness:
  "fetch_raises ''600000'' 250 = Raises ''ConnectionError''
   \<and> pattern_body fetch_raises ''600000'' ''alpha'' = Inl ''ConnectionError''
   \<and> check_technical_pattern fetch_raises ''600000'' ''alpha'' = None
   \<and> to_candidates (filter_basics (rows (fst (get_market_snapshot providers_fallback))))
       = [(''600000'', ''alpha''), (''000001'', ''delta'')]
   \<and> mset (rev [(''600000'', ''alpha''), (''000001'', ''delta'')])
       = mset [(''600000'', ''alpha''), (''000001'', ''delta'')]
   \<and> pattern_body fetch_raises ''000001'' ''delta'' = Inl ''ConnectionError''
   \<and> has_required_columns (fst (get_market_snapshot providers_fallback))
   \<and> (0::int) < 5
   \<and> fst (run_screen 5 providers_fallback fetch_raises rev) = Inr []"
proof -
  let ?cs = "[(''600000'', ''alpha''), (''000001'', ''delta'')]"
  note th = evaluation_errors_swallowed
  have f: "fetch_raises ''600000'' 250 = Raises ''ConnectionError''"
    by (simp add: fetch_raises_def)
  have b: "pattern_body fetch_raises ''600000'' ''alpha'' = Inl ''ConnectionError''"
    using th [where g = fetch_raises and c = "''600000''" and n = "''alpha''"
        and e = "''ConnectionError''"] f
    by blast
  have k: "check_technical_pattern fetch_raises ''600000'' ''alpha'' = None"
    using th [where g = fetch_raises and c = "''600000''" and n = "''alpha''"
        and e = "''ConnectionError''"] b
    by blast
  have b': "pattern_body fetch_raises ''000001'' ''delta'' = Inl ''ConnectionError''"
    using th [where g = fetch_raises and c = "''000001''" and n = "''delta''"
        and e = "''ConnectionError''"]
    by (simp add: fetch_raises_def)
  have c: "to_candidates (filter_basics (rows (fst (get_market_snapshot providers_fallback))))
      = ?cs"
    by code_simp
  have m: "mset (rev ?cs) = mset ?cs" by simp
  from b b' have r: "\<forall>s \<in> set ?cs. \<exists>e. pattern_body fetch_raises (fst s) (snd s) = Inl e"
    by simp
  have q: "has_required_columns (fst (get_market_snapshot providers_fallback))"
    by code_simp
  have w: "(0::int) < 5" by simp
  have res: "fst (run_screen 5 providers_fallback fetch_raises rev) = Inr []"
    using th [where g = fetch_raises and cands = ?cs and p = providers_fallback
        and completed = rev and w = 5] c [symmetric] m r q w
    by blast
  have "([]::ScreenHit list) = []"
    using th [where g = fetch_raises and cands = ?cs and p = providers_fallback
        and completed = rev and w = 5 and rs = "[]"] c [symmetric] m r res
    by blast
  with f b k c m b' q w res show ?thesis by blast
qed

text \<open>
  What \<^verbatim>\<open>get_market_snapshot\<close> returns: the empty frame, with an error logged, when
  the imports fail or both providers raise; the rows of AkShare's table when AkShare
  answers; the rows of efinance's table when AkShare raises and efinance answers.
\<close>

lemma snapshot_imports_fail:
  "import_libs p = Raises e
   \<Longrightarrow> get_market_snapshot p = (empty_frame, [(ERROR, SnapshotFailed e)])"
  by (simp add: get_market_snapshot_def)

lemma snapshot_providers_fail:
  "import_libs p = Returns u \<Longrightarrow> stock_zh_a_spot_em p = Raises e1
   \<Longrightarrow> get_realtime_quotes p = Raises e2
   \<Longrightarrow> get_market_snapshot p =
        (empty_frame, [(INFO, AkTry), (WARNING, AkFailed e1), (INFO, EfTry),
                       (ERROR, SnapshotFailed e2)])"
  by (simp add: get_market_snapshot_def)

lemma snapshot_akshare:
  "import_libs p = Returns u \<Longrightarrow> stock_zh_a_spot_em p = Returns t
   \<Longrightarrow> fst (get_market_snapshot p) = \<lparr> columns = headers t, rows = map coerce_row (body t) \<rparr>"
  by (simp add: get_market_snapshot_def)

lemma snapshot_fallback:
  "import_libs p = Returns u \<Longrightarrow> stock_zh_a_spot_em p = Raises e1
   \<Longrightarrow> get_realtime_quotes p = Returns t
   \<Longrightarrow> fst (get_market_snapshot p) =
        \<lparr> columns = (if Code \<in> set (headers t) then headers t else []),
          rows = map coerce_row (body t) \<rparr>"
  by (simp add: get_market_snapshot_def)

text \<open>
  On an empty snapshot \<^verbatim>\<open>run_screen\<close> logs that the snapshot is unavailable and
  returns the empty list, whatever the pool width. On a snapshot with rows, the columns
  the run reads and a positive pool width, every candidate of the basic filter is
  evaluated and the hits returned are those of all candidates.
\<close>

lemma run_screen_unavailable:
  "rows (fst (get_market_snapshot p)) = []
   \<Longrightarrow> run_screen w p g completed =
        (Inr [], [(INFO, ScreenStart)] @ snd (get_market_snapshot p)
                   @ [(ERROR, SnapshotUnavailable)])"
  by (rule run_screen_empty)

lemma run_screen_completes:
  assumes "rows (fst (get_market_snapshot p)) \<noteq> []"
    and "has_required_columns (fst (get_market_snapshot p))" and "0 < w"
    and "cands = to_candidates (filter_basics (rows (fst (get_market_snapshot p))))"
    and "mset (completed cands) = mset cands"
  shows "\<exists>rs. fst (run_screen w p g completed) = Inr rs
     \<and> mset rs = mset (List.map_filter (\<lambda>s. check_technical_pattern g (fst s) (snd s)) cands)"
proof -
  from assms(1-4) have "fst (run_screen w p g completed) =
      Inr (List.map_filter (\<lambda>s. check_technical_pattern g (fst s) (snd s)) (completed cands))"
    by (auto simp: run_screen_outcome Let_def has_required_columns_def)
  moreover from assms(5)
  have "mset (List.map_filter (\<lambda>s. check_technical_pattern g (fst s) (snd s)) (completed cands))
      = mset (List.map_filter (\<lambda>s. check_technical_pattern g (fst s) (snd s)) cands)"
    by (rule mset_map_filter_perm)
  ultimately show ?thesis by blast
qed

text \<open>
  A snapshot with rows that lacks one of the columns of the basic filter makes
  \<^verbatim>\<open>run_screen\<close> raise, and so does a pool width that is not positive.
\<close>

lemma run_screen_missing_column:
  assumes "rows (fst (get_market_snapshot p)) \<noteq> []"
    and "Price \<notin> set (columns (fst (get_market_snapshot p)))
       \<or> PE \<notin> set (columns (fst (get_market_snapshot p)))
       \<or> TotalMV \<notin> set (columns (fst (get_market_snapshot p)))"
  shows "\<exists>e. fst (run_screen w p g completed) = Inl e"
  using assms by (auto simp: run_screen_outcome Let_def)

lemma run_screen_pool_width:
  assumes "rows (fst (get_market_snapshot p)) \<noteq> []"
    and "has_required_columns (fst (get_market_snapshot p))" and "w \<le> 0"
  shows "fst (run_screen w p g completed)
     = Inl ''ValueError: max_workers must be greater than 0''"
  using assms by (auto simp: run_screen_outcome Let_def has_required_columns_def)

text \<open>
  Claim C8 has the empty snapshot as the only point at which the run is aborted early.
  The run is aborted at another: AkShare raises, efinance answers with a table of four
  rows that has no PE header, and \<^verbatim>\<open>run_screen\<close>, on a snapshot that is not empty,
  raises \<^verbatim>\<open>KeyError\<close> out of the basic filter instead of returning a list.
\<close>

theorem run_screen_missing_pe_raises:
  "rows (fst (get_market_snapshot providers_fallback_no_pe)) = map coerce_row market_rows
   \<and> length (rows (fst (get_market_snapshot providers_fallback_no_pe))) = 4
   \<and> columns (fst (get_market_snapshot providers_fallback_no_pe))
       = [Code, Name, Price, TotalMV, CircMV, PctChg]
   \<and> run_screen 5 providers_fallback_no_pe fetch_B rev =
       (Inl ''KeyError: pe'',
        [(INFO, ScreenStart), (INFO, AkTry), (WARNING, AkFailed ''ConnectionError''),
         (INFO, EfTry), (INFO, FilterBefore 4)])"
  by code_simp

subsection \<open>Outside the data model\<close>

text \<open>
  The hypotheses of the claims on the fields of a hit are needed. A series whose close
  at the start of the window is missing is a hit with an \<open>interval_increase\<close> of NaN,
  and a series whose latest close lies below every low is a hit with a negative
  \<open>position_rank\<close>.
\<close>

lemma missing_start_close_hit:
  "check_technical_pattern fetch_missing_start ''600000'' ''demo'' =
     Some \<lparr> code = ''600000'', name = ''demo'', price = Some 12, limit_up_count = 1,
            interval_increase = NaN, position_rank = Fin 30 \<rparr>"
  by code_simp

lemma close_below_low_hit:
  "check_technical_pattern fetch_below ''600000'' ''demo'' =
     Some \<lparr> code = ''600000'', name = ''demo'', price = Some 12, limit_up_count = 1,
            interval_increase = Fin 20, position_rank = Fin (- 10) \<rparr>"
  by code_simp

end
